theory Spec2Isabelle
  imports Complex_Main
begin

section \<open>Python values used by \<open>tools/build_state_db.py\<close>\<close>

text \<open>
  A tag mapping is the dictionary \<open>dict(obj.tags)\<close>: string keys, string values,
  no duplicate keys. \<open>tags.get(k)\<close> is \<open>tags k\<close>, with \<open>None\<close> for Python's
  \<open>None\<close>. A character is read as a code point below 256.
\<close>

type_synonym tags = "string \<rightharpoonup> string"

text \<open>Truth value of \<open>tags.get(k)\<close> in an \<open>if\<close>: \<open>None\<close> and the empty string are false.\<close>

definition truthy :: "string option \<Rightarrow> bool" where
  "truthy v = (case v of None \<Rightarrow> False | Some s \<Rightarrow> s \<noteq> [])"

text \<open>\<open>str(v)\<close>, which is what an f-string field \<open>{v}\<close> prints: \<open>None\<close> prints as the text None.\<close>

definition py_str :: "string option \<Rightarrow> string" where
  "py_str v = (case v of None \<Rightarrow> ''None'' | Some s \<Rightarrow> s)"

text \<open>\<open>v or d\<close> for a string default \<open>d\<close>.\<close>

definition py_or :: "string option \<Rightarrow> string \<Rightarrow> string" where
  "py_or v d = (case v of None \<Rightarrow> d | Some s \<Rightarrow> if s = [] then d else s)"

text \<open>\<open>tags.get(k, d)\<close>: the default is used only when the key is missing.\<close>

definition get_default :: "tags \<Rightarrow> string \<Rightarrow> string \<Rightarrow> string" where
  "get_default tags k d = (case tags k of None \<Rightarrow> d | Some s \<Rightarrow> s)"

text \<open>\<open>sep.join(parts)\<close>.\<close>

fun join :: "string \<Rightarrow> string list \<Rightarrow> string" where
  "join sep [] = []"
| "join sep [x] = x"
| "join sep (x # y # ys) = x @ sep @ join sep (y # ys)"

text \<open>\<open>str.isspace\<close> on one character, for code points below 256, and \<open>str.strip()\<close>.\<close>

definition isspace :: "char \<Rightarrow> bool" where
  "isspace c = ((of_char c :: nat) \<in> set [9, 10, 11, 12, 13, 28, 29, 30, 31, 32, 133, 160])"

definition strip :: "string \<Rightarrow> string" where
  "strip s = rev (dropWhile isspace (rev (dropWhile isspace s)))"

text \<open>The statement \<open>if v: parts.append(v)\<close>.\<close>

definition append_if :: "string list \<Rightarrow> string option \<Rightarrow> string list" where
  "append_if parts v = (case v of None \<Rightarrow> parts | Some s \<Rightarrow> if s = [] then parts else parts @ [s])"

section \<open>The handler and its records\<close>

text \<open>
  The dictionaries built by \<open>_extract_place\<close> and \<open>_extract_poi\<close>; the field
  \<open>p_x\<close> is the key \<open>'x'\<close> of a place, \<open>poi_x\<close> the key \<open>'x'\<close> of a POI.
  A coordinate is a double in the source; here it is the real number that the double
  stands for. The arithmetic on doubles is not the arithmetic of the reals: it is a
  parameter of the callback that computes with coordinates (see \<open>arith\<close> below).
\<close>

record place =
  p_osm_id :: int
  p_osm_type :: string
  p_lat :: real
  p_lon :: real
  p_name :: string
  p_display_name :: string
  p_type :: string
  p_street :: string
  p_housenumber :: string
  p_city :: string
  p_postcode :: string
  p_state :: string
  p_country :: string

record poi =
  poi_osm_id :: int
  poi_osm_type :: string
  poi_lat :: real
  poi_lon :: real
  poi_name :: string
  poi_category :: string
  poi_address :: string
  poi_phone :: string
  poi_website :: string
  poi_opening_hours :: string

text \<open>The attributes of \<open>PlaceHandler\<close>; \<open>self_x\<close> is \<open>self.x\<close>.\<close>

record PlaceHandler =
  self_places :: "place list"
  self_pois :: "poi list"
  self_region_name :: string
  self_place_count :: nat
  self_poi_count :: nat

text \<open>\<open>PlaceHandler.__init__\<close>.\<close>

definition init :: "string \<Rightarrow> PlaceHandler" where
  "init region_name =
     \<lparr>self_places = [], self_pois = [], self_region_name = region_name,
      self_place_count = 0, self_poi_count = 0\<rparr>"

section \<open>Place type\<close>

definition place_values :: "string list" where
  "place_values =
     [''city'', ''town'', ''village'', ''hamlet'', ''suburb'', ''neighbourhood'', ''locality'']"

text \<open>\<open>PlaceHandler._get_place_type\<close>; the result \<open>None\<close> is Python's \<open>None\<close>.\<close>

definition get_place_type :: "tags \<Rightarrow> string option" where
  "get_place_type tags =
     (let place = tags ''place'' in
      if place \<in> set (map Some place_values) then place else
      let amenity = tags ''amenity'' in
      if truthy amenity then amenity else
      let shop = tags ''shop'' in
      if truthy shop then Some (''shop_'' @ py_str shop) else
      let tourism = tags ''tourism'' in
      if truthy tourism then tourism else
      if truthy (tags ''addr:street'') \<and> truthy (tags ''addr:housenumber'') then
        (let building = tags ''building'' in
         if truthy building then
           (if building \<noteq> Some ''yes'' then Some (''building_'' @ py_str building)
            else Some ''building'')
         else Some ''address'')
      else
      let leisure = tags ''leisure'' in
      if truthy leisure then leisure else
      let office = tags ''office'' in
      if truthy office then Some (''office_'' @ py_str office) else
      let aeroway = tags ''aeroway'' in
      if truthy aeroway then aeroway else
      let railway = tags ''railway'' in
      if truthy railway then railway else
      if truthy (tags ''name'') then
        (let landuse = tags ''landuse'' in
         if truthy landuse then landuse else None)
      else None)"

section \<open>Display name\<close>

text \<open>\<open>PlaceHandler._build_display_name\<close>; \<open>parts\<close> is the list the source appends to.\<close>

definition build_display_name :: "PlaceHandler \<Rightarrow> tags \<Rightarrow> string option \<Rightarrow> string" where
  "build_display_name self tags name =
     (let parts = [];
          parts = append_if parts name;
          street = tags ''addr:street'';
          housenumber = tags ''addr:housenumber'';
          parts = (if truthy street then
                     (if truthy housenumber
                      then parts @ [py_str housenumber @ '' '' @ py_str street]
                      else if \<not> truthy name then parts @ [py_str street] else parts)
                   else parts);
          city = tags ''addr:city'';
          parts = append_if parts city;
          state = tags ''addr:state'';
          parts = append_if parts state;
          country = tags ''addr:country'';
          parts = append_if parts country;
          postcode = tags ''addr:postcode'';
          parts = append_if parts postcode
      in if parts \<noteq> [] then join '', '' parts else self_region_name self)"

section \<open>POI categories\<close>

text \<open>
  The dictionary \<open>POI_CATEGORIES\<close>, as its items in insertion order, and assignment
  \<open>d[k] = v\<close> on such an item list: an existing key keeps its position, a new key goes
  last. \<open>POI_TAG_TO_CATEGORY\<close> is the comprehension
  \<open>{v: k for k, v in POI_CATEGORIES.items()}\<close>.
\<close>

definition POI_CATEGORIES :: "(string \<times> (string \<times> string)) list" where
  "POI_CATEGORIES =
     [(''HOSPITAL'', (''amenity'', ''hospital'')),
      (''PHARMACY'', (''amenity'', ''pharmacy'')),
      (''DENTIST'', (''amenity'', ''dentist'')),
      (''DOCTOR'', (''amenity'', ''doctors'')),
      (''CLINIC'', (''amenity'', ''clinic'')),
      (''VETERINARIAN'', (''amenity'', ''veterinary'')),
      (''FIRE_STATION'', (''amenity'', ''fire_station'')),
      (''POLICE_STATION'', (''amenity'', ''police'')),
      (''AIRPORT'', (''aeroway'', ''aerodrome'')),
      (''HELIPORT'', (''aeroway'', ''helipad'')),
      (''RAILWAY_STATION'', (''railway'', ''station'')),
      (''FERRY_TERMINAL'', (''amenity'', ''ferry_terminal'')),
      (''PARKING'', (''amenity'', ''parking'')),
      (''GAS_STATION'', (''amenity'', ''fuel'')),
      (''CAR_WASH'', (''amenity'', ''car_wash'')),
      (''BANK'', (''amenity'', ''bank'')),
      (''ATM'', (''amenity'', ''atm'')),
      (''SCHOOL'', (''amenity'', ''school'')),
      (''RESTAURANT'', (''amenity'', ''restaurant'')),
      (''HOTEL'', (''tourism'', ''hotel'')),
      (''CAFE'', (''amenity'', ''cafe'')),
      (''FAST_FOOD'', (''amenity'', ''fast_food'')),
      (''BAR'', (''amenity'', ''bar'')),
      (''PUB'', (''amenity'', ''pub'')),
      (''SUPERMARKET'', (''shop'', ''supermarket'')),
      (''CONVENIENCE_STORE'', (''shop'', ''convenience'')),
      (''SHOPPING_MALL'', (''shop'', ''mall'')),
      (''HARDWARE_STORE'', (''shop'', ''hardware'')),
      (''LAUNDRY'', (''shop'', ''laundry'')),
      (''HAIR_SALON'', (''shop'', ''hairdresser'')),
      (''CINEMA'', (''amenity'', ''cinema'')),
      (''GYM'', (''leisure'', ''fitness_centre'')),
      (''CEMETERY'', (''landuse'', ''cemetery'')),
      (''GRAVE_YARD'', (''amenity'', ''grave_yard'')),
      (''SURVEILLANCE'', (''man_made'', ''surveillance'')),
      (''EMBASSY'', (''amenity'', ''embassy'')),
      (''GOVERNMENT'', (''office'', ''government'')),
      (''PRISON'', (''amenity'', ''prison'')),
      (''COMM_TOWER'', (''man_made'', ''tower'')),
      (''CELL_TOWER'', (''man_made'', ''mast'')),
      (''POWER_STATION'', (''power'', ''plant'')),
      (''WATER_TOWER'', (''man_made'', ''water_tower'')),
      (''POST_OFFICE'', (''amenity'', ''post_office'')),
      (''PLACE_OF_WORSHIP'', (''amenity'', ''place_of_worship'')),
      (''LIBRARY'', (''amenity'', ''library''))]"

fun dict_set :: "('k \<times> 'v) list \<Rightarrow> 'k \<Rightarrow> 'v \<Rightarrow> ('k \<times> 'v) list" where
  "dict_set [] k v = [(k, v)]"
| "dict_set ((k', v') # d) k v =
     (if k' = k then (k', v) # d else (k', v') # dict_set d k v)"

definition POI_TAG_TO_CATEGORY :: "((string \<times> string) \<times> string) list" where
  "POI_TAG_TO_CATEGORY = foldl (\<lambda>d (k, v). dict_set d v k) [] POI_CATEGORIES"

text \<open>
  The loop of \<open>_extract_poi\<close> over the items of the table: the first pair whose tag has
  exactly that value gives the category and ends the loop.
\<close>

fun find_category :: "tags \<Rightarrow> ((string \<times> string) \<times> string) list \<Rightarrow> string option" where
  "find_category tags [] = None"
| "find_category tags (((osm_key, osm_value), category) # rest) =
     (if tags osm_key = Some osm_value then Some category else find_category tags rest)"

section \<open>Entities\<close>

text \<open>
  What the handler reads from an entity of the decoder. A location is \<open>None\<close> when
  \<open>location.valid()\<close> is false, else its latitude and longitude. Reading the tags of an
  entity is a call into the decoder and may raise; \<open>Inl\<close> is the exception.
\<close>

datatype py_error = EntityFault

type_synonym location = "(real \<times> real) option"

record osm_node =
  node_id :: int
  node_location :: location
  node_tags :: "py_error + tags"

record osm_way =
  way_id :: int
  way_nodes :: "location list"
  way_tags :: "py_error + tags"

datatype osm_obj = OsmNode osm_node | OsmWay osm_way

fun obj_id :: "osm_obj \<Rightarrow> int" where
  "obj_id (OsmNode n) = node_id n"
| "obj_id (OsmWay w) = way_id w"

fun obj_tags :: "osm_obj \<Rightarrow> py_error + tags" where
  "obj_tags (OsmNode n) = node_tags n"
| "obj_tags (OsmWay w) = way_tags w"

text \<open>\<open>hasattr(obj, 'location')\<close>: a node has a location, a way has a node list.\<close>

fun has_location :: "osm_obj \<Rightarrow> bool" where
  "has_location (OsmNode n) = True"
| "has_location (OsmWay w) = False"

section \<open>Record extraction\<close>

text \<open>\<open>PlaceHandler._extract_place\<close>: an exception, no place (\<open>None\<close>), or the place.\<close>

definition extract_place ::
  "PlaceHandler \<Rightarrow> osm_obj \<Rightarrow> real \<Rightarrow> real \<Rightarrow> py_error + place option" where
  "extract_place self obj lat lon =
     (case obj_tags obj of
        Inl e \<Rightarrow> Inl e
      | Inr tags \<Rightarrow>
          Inr (let name = tags ''name'';
                   addr_street = tags ''addr:street'';
                   addr_housenumber = tags ''addr:housenumber''
               in if \<not> truthy name \<and> \<not> truthy addr_street then None else
                  let place_type = get_place_type tags
                  in if \<not> truthy place_type then None else
                     let display_name = build_display_name self tags name;
                         short_name =
                           (if truthy name then py_str name
                            else strip (py_str addr_housenumber @ '' '' @ py_str addr_street))
                     in Some \<lparr>p_osm_id = obj_id obj,
                              p_osm_type = (if has_location obj then ''node'' else ''way''),
                              p_lat = lat,
                              p_lon = lon,
                              p_name = short_name,
                              p_display_name = display_name,
                              p_type = py_str place_type,
                              p_street = py_or addr_street [],
                              p_housenumber = py_or addr_housenumber [],
                              p_city = get_default tags ''addr:city'' [],
                              p_postcode = get_default tags ''addr:postcode'' [],
                              p_state = get_default tags ''addr:state'' (self_region_name self),
                              p_country = get_default tags ''addr:country'' []\<rparr>))"

text \<open>\<open>PlaceHandler._extract_poi\<close>.\<close>

definition extract_poi ::
  "PlaceHandler \<Rightarrow> osm_obj \<Rightarrow> real \<Rightarrow> real \<Rightarrow> py_error + poi option" where
  "extract_poi self obj lat lon =
     (case obj_tags obj of
        Inl e \<Rightarrow> Inl e
      | Inr tags \<Rightarrow>
          Inr (let poi_category = find_category tags POI_TAG_TO_CATEGORY
               in if \<not> truthy poi_category then None else
                  let name = get_default tags ''name'' [];
                      addr_parts = [];
                      addr_parts = append_if addr_parts (tags ''addr:housenumber'');
                      addr_parts = append_if addr_parts (tags ''addr:street'');
                      addr_parts = append_if addr_parts (tags ''addr:city'');
                      addr_parts = append_if addr_parts (tags ''addr:postcode'');
                      address = (if addr_parts \<noteq> [] then join '', '' addr_parts else [])
                  in Some \<lparr>poi_osm_id = obj_id obj,
                           poi_osm_type = (if has_location obj then ''node'' else ''way''),
                           poi_lat = lat,
                           poi_lon = lon,
                           poi_name = name,
                           poi_category = py_str poi_category,
                           poi_address = address,
                           poi_phone =
                             get_default tags ''phone'' (get_default tags ''contact:phone'' []),
                           poi_website =
                             get_default tags ''website'' (get_default tags ''contact:website'' []),
                           poi_opening_hours = get_default tags ''opening_hours'' []\<rparr>))"

section \<open>The callbacks \<open>node\<close> and \<open>way\<close>\<close>

text \<open>
  Appending a record and counting it; the progress line printed every 50000 places is
  output only and is left out.
\<close>

definition add_place :: "PlaceHandler \<Rightarrow> place \<Rightarrow> PlaceHandler" where
  "add_place self p =
     self\<lparr>self_places := self_places self @ [p], self_place_count := self_place_count self + 1\<rparr>"

definition add_poi :: "PlaceHandler \<Rightarrow> poi \<Rightarrow> PlaceHandler" where
  "add_poi self q =
     self\<lparr>self_pois := self_pois self @ [q], self_poi_count := self_poi_count self + 1\<rparr>"

text \<open>
  \<open>PlaceHandler.node\<close> has no exception handler: an exception leaves the callback,
  with the handler as it was when it was raised (\<open>Inl\<close>).
\<close>

definition node :: "PlaceHandler \<Rightarrow> osm_node \<Rightarrow> (py_error \<times> PlaceHandler) + PlaceHandler" where
  "node self n =
     (case node_location n of
        None \<Rightarrow> Inr self
      | Some (lat, lon) \<Rightarrow>
          (case extract_place self (OsmNode n) lat lon of
             Inl e \<Rightarrow> Inl (e, self)
           | Inr place \<Rightarrow>
               let self = (case place of None \<Rightarrow> self | Some p \<Rightarrow> add_place self p)
               in (case extract_poi self (OsmNode n) lat lon of
                     Inl e \<Rightarrow> Inl (e, self)
                   | Inr poi \<Rightarrow>
                       Inr (case poi of None \<Rightarrow> self | Some q \<Rightarrow> add_poi self q))))"

text \<open>The loop of \<open>way\<close> over \<open>w.nodes\<close>, filling \<open>lats\<close> and \<open>lons\<close>.\<close>

fun collect :: "location list \<Rightarrow> real list \<Rightarrow> real list \<Rightarrow> real list \<times> real list" where
  "collect [] lats lons = (lats, lons)"
| "collect (None # ns) lats lons = collect ns lats lons"
| "collect (Some (lat, lon) # ns) lats lons = collect ns (lats @ [lat]) (lons @ [lon])"

text \<open>
  The two operations of \<open>way\<close> on doubles: the builtin \<open>sum(xs)\<close> on a list of
  doubles, and \<open>x / n\<close> for a double \<open>x\<close> and the integer \<open>n = len(xs)\<close>. Both round,
  and how \<open>sum\<close> adds depends on the interpreter, so the callback takes them as a
  parameter; \<open>ieee_double\<close> below is the instance for binary64.
\<close>

record arith =
  float_sum :: "real list \<Rightarrow> real"
  float_div_int :: "real \<Rightarrow> nat \<Rightarrow> real"

text \<open>The body of the \<open>try\<close> in \<open>PlaceHandler.way\<close>.\<close>

definition way_try ::
  "arith \<Rightarrow> PlaceHandler \<Rightarrow> osm_way \<Rightarrow> (py_error \<times> PlaceHandler) + PlaceHandler" where
  "way_try ar self w =
     (let (lats, lons) = collect (way_nodes w) [] []
      in if lats = [] then Inr self else
         let lat = float_div_int ar (float_sum ar lats) (length lats);
             lon = float_div_int ar (float_sum ar lons) (length lons)
         in (case extract_place self (OsmWay w) lat lon of
               Inl e \<Rightarrow> Inl (e, self)
             | Inr place \<Rightarrow>
                 let self = (case place of None \<Rightarrow> self
                             | Some p \<Rightarrow> add_place self (p\<lparr>p_osm_type := ''way''\<rparr>))
                 in (case extract_poi self (OsmWay w) lat lon of
                       Inl e \<Rightarrow> Inl (e, self)
                     | Inr poi \<Rightarrow>
                         Inr (case poi of None \<Rightarrow> self
                              | Some q \<Rightarrow> add_poi self (q\<lparr>poi_osm_type := ''way''\<rparr>)))))"

text \<open>\<open>PlaceHandler.way\<close>: \<open>except Exception: pass\<close> keeps the handler as it is.\<close>

definition way :: "arith \<Rightarrow> PlaceHandler \<Rightarrow> osm_way \<Rightarrow> PlaceHandler" where
  "way ar self w = (case way_try ar self w of Inl (e, self') \<Rightarrow> self' | Inr self' \<Rightarrow> self')"

section \<open>Double arithmetic\<close>

text \<open>
  Binary64 with round to nearest, ties to even, on the real numbers that finite doubles
  stand for: 53 significant bits, the exponent not bounded (valid locations lie within
  180 degrees, far from overflow and underflow). \<open>bits n\<close> is the number of binary
  digits of \<open>n\<close>, \<open>floor_log2 x\<close> the exponent of \<open>x > 0\<close>, that is the \<open>e\<close> with
  \<open>2 ^ e \<le> x < 2 ^ (e + 1)\<close>.
\<close>

fun bits :: "nat \<Rightarrow> nat" where
  "bits n = (if n = 0 then 0 else Suc (bits (n div 2)))"

declare bits.simps [simp del]

definition pow2 :: "int \<Rightarrow> real" where
  "pow2 e = (if 0 \<le> e then 2 ^ nat e else 1 / 2 ^ nat (- e))"

definition floor_log2 :: "real \<Rightarrow> int" where
  "floor_log2 x =
     (if 1 \<le> x then int (bits (nat \<lfloor>x\<rfloor>)) - 1
      else - int (bits (nat (\<lceil>1 / x\<rceil> - 1))))"

definition round_half_even :: "real \<Rightarrow> int" where
  "round_half_even q =
     (let f = \<lfloor>q\<rfloor>; d = q - of_int f
      in if d < 1 / 2 then f else if 1 / 2 < d then f + 1 else if even f then f else f + 1)"

definition round_double :: "real \<Rightarrow> real" where
  "round_double x =
     (if x = 0 then 0
      else let ulp = pow2 (floor_log2 \<bar>x\<bar> - 52)
           in of_int (round_half_even (x / ulp)) * ulp)"

text \<open>
  The operations of \<open>way\<close> in binary64. \<open>sum(xs)\<close> starts from the integer 0 and adds
  the items from the left, each addition rounded (CPython before 3.12; later versions
  carry a correction term, which is zero as long as every partial sum is exact).
  \<open>x / n\<close> converts \<open>n\<close> to a double and rounds the quotient.
\<close>

definition ieee_double :: arith where
  "ieee_double =
     \<lparr>float_sum = (\<lambda>xs. foldl (\<lambda>acc x. round_double (acc + x)) 0 xs),
      float_div_int = (\<lambda>x n. round_double (x / round_double (real n)))\<rparr>"

section \<open>The database\<close>

text \<open>
  \<open>str(n)\<close> for the length of a list, and the number that \<open>int(s)\<close> reads back from a
  string of decimal digits, as \<open>build_manifest\<close> does with the stored counts
  (\<open>None\<close> for any other string).
\<close>

fun str_nat :: "nat \<Rightarrow> string" where
  "str_nat n =
     (if n < 10 then [char_of (48 + n)]
      else str_nat (n div 10) @ [char_of (48 + n mod 10)])"

declare str_nat.simps [simp del]

definition is_digit :: "char \<Rightarrow> bool" where
  "is_digit c = (48 \<le> (of_char c :: nat) \<and> (of_char c :: nat) \<le> 57)"

definition decimal_value :: "string \<Rightarrow> nat option" where
  "decimal_value s =
     (if s \<noteq> [] \<and> list_all is_digit s
      then Some (foldl (\<lambda>acc c. 10 * acc + (of_char c - 48)) 0 s)
      else None)"

text \<open>
  The store written by \<open>create_database\<close>: the tables \<open>places\<close> and \<open>pois\<close> with their
  row identifiers, the text index \<open>places_fts\<close>, the range index \<open>pois_rtree\<close> and the
  table \<open>metadata\<close>, whose key is a primary key. The secondary indexes and the final
  \<open>VACUUM\<close> and \<open>ANALYZE\<close> hold no data of their own and are left out.
\<close>

datatype sql_error = IntegrityError

record store =
  db_places :: "(nat \<times> place) list"
  db_places_fts :: "(nat \<times> string \<times> string \<times> string \<times> string \<times> string) list"
  db_pois :: "(nat \<times> poi) list"
  db_pois_rtree :: "(nat \<times> real \<times> real \<times> real \<times> real) list"
  db_metadata :: "(string \<times> string) list"

text \<open>
  An \<open>INSERT\<close> without identifier into a table with \<open>INTEGER PRIMARY KEY\<close>: the row gets
  the largest identifier so far plus one; \<open>executemany\<close> inserts the rows in order.
\<close>

definition insert_row :: "(nat \<times> 'a) list \<Rightarrow> 'a \<Rightarrow> (nat \<times> 'a) list" where
  "insert_row tbl r = tbl @ [(Suc (foldl max 0 (map fst tbl)), r)]"

definition executemany :: "(nat \<times> 'a) list \<Rightarrow> 'a list \<Rightarrow> (nat \<times> 'a) list" where
  "executemany tbl rows = foldl insert_row tbl rows"

text \<open>\<open>INSERT INTO metadata VALUES (k, v)\<close>: a key already stored is refused.\<close>

definition insert_metadata ::
  "(string \<times> string) list \<Rightarrow> string \<Rightarrow> string \<Rightarrow> sql_error + (string \<times> string) list" where
  "insert_metadata tbl k v =
     (if k \<in> set (map fst tbl) then Inl IntegrityError else Inr (tbl @ [(k, v)]))"

text \<open>
  \<open>create_database\<close>. The file at \<open>output_path\<close> is removed first, so the store starts
  empty and is the value returned; \<open>created\<close> stands for
  \<open>datetime.datetime.now().isoformat()\<close>.
\<close>

definition create_database ::
  "place list \<Rightarrow> poi list \<Rightarrow> string \<Rightarrow> string \<Rightarrow> sql_error + store" where
  "create_database places pois created region_name =
     (let places_tbl = executemany [] places;
          places_fts =
            map (\<lambda>(i, p). (i, p_name p, p_display_name p, p_street p, p_city p, p_postcode p))
              places_tbl;
          pois_tbl = executemany [] pois;
          pois_rtree = map (\<lambda>(i, q). (i, poi_lat q, poi_lat q, poi_lon q, poi_lon q)) pois_tbl;
          metadata = []
      in case insert_metadata metadata ''created'' created of
           Inl e \<Rightarrow> Inl e
         | Inr metadata \<Rightarrow>
       (case insert_metadata metadata ''place_count'' (str_nat (length places)) of
           Inl e \<Rightarrow> Inl e
         | Inr metadata \<Rightarrow>
       (case insert_metadata metadata ''poi_count'' (str_nat (length pois)) of
           Inl e \<Rightarrow> Inl e
         | Inr metadata \<Rightarrow>
       (case insert_metadata metadata ''region'' region_name of
           Inl e \<Rightarrow> Inl e
         | Inr metadata \<Rightarrow>
       (case insert_metadata metadata ''schema_version'' ''2'' of
           Inl e \<Rightarrow> Inl e
         | Inr metadata \<Rightarrow>
             Inr \<lparr>db_places = places_tbl, db_places_fts = places_fts, db_pois = pois_tbl,
                  db_pois_rtree = pois_rtree, db_metadata = metadata\<rparr>)))))"

text \<open>\<open>SELECT value FROM metadata WHERE key = k\<close>.\<close>

definition metadata_value :: "store \<Rightarrow> string \<Rightarrow> string option" where
  "metadata_value db k = map_of (db_metadata db) k"

section \<open>Notions of the specification\<close>

text \<open>The non-empty strings of a list, in order.\<close>

definition nonempty :: "string list \<Rightarrow> string list" where
  "nonempty xs = filter (\<lambda>s. s \<noteq> []) xs"

text \<open>
  The display name as the specification words it: name; the street component only when
  there is no name; city; state; country; postcode; the non-empty ones joined.
\<close>

definition spec_display_name :: "tags \<Rightarrow> string option \<Rightarrow> string" where
  "spec_display_name tags name =
     join '', '' (nonempty
       [py_or name [],
        (if \<not> truthy name \<and> truthy (tags ''addr:street'') then
           (if truthy (tags ''addr:housenumber'')
            then py_str (tags ''addr:housenumber'') @ '' '' @ py_str (tags ''addr:street'')
            else py_str (tags ''addr:street''))
         else []),
        py_or (tags ''addr:city'') [],
        py_or (tags ''addr:state'') [],
        py_or (tags ''addr:country'') [],
        py_or (tags ''addr:postcode'') []])"

text \<open>
  The components the code joins: the street with its housenumber is a component whether
  or not there is a name; the bare street only when there is no name.
\<close>

definition display_components :: "tags \<Rightarrow> string option \<Rightarrow> string list" where
  "display_components tags name =
     nonempty
       [py_or name [],
        (if truthy (tags ''addr:street'') \<and> truthy (tags ''addr:housenumber'')
         then py_str (tags ''addr:housenumber'') @ '' '' @ py_str (tags ''addr:street'')
         else if truthy (tags ''addr:street'') \<and> \<not> truthy name
         then py_str (tags ''addr:street'')
         else []),
        py_or (tags ''addr:city'') [],
        py_or (tags ''addr:state'') [],
        py_or (tags ''addr:country'') [],
        py_or (tags ''addr:postcode'') []]"

text \<open>A tag mapping with its empty values removed.\<close>

definition norm_tags :: "tags \<Rightarrow> tags" where
  "norm_tags t = (\<lambda>x. if truthy (t x) then t x else None)"

text \<open>The vertices of a way that have a valid location, in order.\<close>

definition valid_vertices :: "location list \<Rightarrow> (real \<times> real) list" where
  "valid_vertices ns = map the (filter (\<lambda>l. l \<noteq> None) ns)"

definition mean :: "real list \<Rightarrow> real" where
  "mean xs = sum_list xs / real (length xs)"

text \<open>The mean as the doubles compute it: \<open>sum(xs) / len(xs)\<close>.\<close>

definition float_mean :: "arith \<Rightarrow> real list \<Rightarrow> real" where
  "float_mean ar xs = float_div_int ar (float_sum ar xs) (length xs)"

section \<open>Basic facts\<close>

lemma truthy_simps:
  "truthy None = False" "truthy (Some s) = (s \<noteq> [])"
  by (simp_all add: truthy_def)

lemma py_str_Some: "py_str (Some s) = s"
  by (simp add: py_str_def)

lemma truthy_py_str: "truthy v \<Longrightarrow> py_str v \<noteq> []"
  by (simp add: truthy_def py_str_def split: option.splits)

lemma append_if_nonempty: "append_if parts v = parts @ nonempty [py_or v []]"
  by (simp add: append_if_def nonempty_def py_or_def split: option.splits)

lemma nonempty_Cons: "nonempty (x # xs) = nonempty [x] @ nonempty xs"
  by (simp add: nonempty_def)

section \<open>The display name\<close>

text \<open>
  C1 as stated fails: with a name, a street and a housenumber, the display name holds
  the component "housenumber street", where the specification has no street component.
\<close>

theorem display_name_street_with_name_counterexample:
  "build_display_name (init ''Virginia'')
     (map_of [(''name'', ''Cafe''), (''addr:street'', ''Main St''), (''addr:housenumber'', ''10'')])
     (Some ''Cafe'') = ''Cafe, 10 Main St''
   \<and> spec_display_name
     (map_of [(''name'', ''Cafe''), (''addr:street'', ''Main St''), (''addr:housenumber'', ''10'')])
     (Some ''Cafe'') = ''Cafe''"
  by (simp add: build_display_name_def spec_display_name_def nonempty_def append_if_def
        truthy_def py_str_def py_or_def)

text \<open>
  C1, amended: the display name is the comma-joined list of the non-empty components
  name, street component, city, state, country, postcode, in this order, where the street
  component is "housenumber street" whenever street and housenumber are both non-empty
  (with or without a name) and the bare street only when the housenumber is missing and
  there is no name; when no component is non-empty it is the region label of the handler.
\<close>

theorem build_display_name_components:
  "build_display_name self tags name =
     (if display_components tags name = [] then self_region_name self
      else join '', '' (display_components tags name))"
proof -
  let ?street =
    "(if truthy (tags ''addr:street'') \<and> truthy (tags ''addr:housenumber'')
      then py_str (tags ''addr:housenumber'') @ '' '' @ py_str (tags ''addr:street'')
      else if truthy (tags ''addr:street'') \<and> \<not> truthy name
      then py_str (tags ''addr:street'')
      else [])"
  have street:
    "(if truthy (tags ''addr:street'') then
        (if truthy (tags ''addr:housenumber'')
         then parts @ [py_str (tags ''addr:housenumber'') @ '' '' @ py_str (tags ''addr:street'')]
         else if \<not> truthy name then parts @ [py_str (tags ''addr:street'')] else parts)
      else parts) = parts @ nonempty [?street]" for parts
    by (simp add: nonempty_def truthy_py_str)
  have comps: "display_components tags name =
      nonempty [py_or name []] @ nonempty [?street] @ nonempty [py_or (tags ''addr:city'') []]
       @ nonempty [py_or (tags ''addr:state'') []] @ nonempty [py_or (tags ''addr:country'') []]
       @ nonempty [py_or (tags ''addr:postcode'') []]"
    unfolding display_components_def
    by (subst nonempty_Cons, subst (2) nonempty_Cons, subst (3) nonempty_Cons,
        subst (4) nonempty_Cons, subst (5) nonempty_Cons) simp
  show ?thesis
    unfolding build_display_name_def Let_def street append_if_nonempty comps
    by simp
qed

theorem build_display_name_components_witness:
  "build_display_name (init ''Virginia'')
     (map_of [(''name'', ''Cafe''), (''addr:city'', ''Springfield'')]) (Some ''Cafe'')
     = ''Cafe, Springfield''
   \<and> build_display_name (init ''Virginia'')
     (map_of [(''addr:street'', ''Main St''), (''addr:housenumber'', ''10''),
              (''addr:city'', ''Springfield'')]) None
     = ''10 Main St, Springfield''
   \<and> build_display_name (init ''Virginia'') (map_of []) None = ''Virginia''"
  using build_display_name_components [of "init ''Virginia''"
          "map_of [(''name'', ''Cafe''), (''addr:city'', ''Springfield'')]" "Some ''Cafe''"]
        build_display_name_components [of "init ''Virginia''"
          "map_of [(''addr:street'', ''Main St''), (''addr:housenumber'', ''10''),
                   (''addr:city'', ''Springfield'')]" None]
        build_display_name_components [of "init ''Virginia''" "map_of []" None]
  by (simp add: display_components_def nonempty_def truthy_def py_str_def py_or_def init_def)

section \<open>The place type\<close>

text \<open>
  C4 as stated fails: a \<open>building\<close> tag that is present with the empty value is a value
  other than \<open>yes\<close>, and the place type is \<open>address\<close>, not \<open>building_\<close> followed by it.
\<close>

theorem address_rule_empty_building_counterexample:
  "map_of [(''addr:street'', ''Main St''), (''addr:housenumber'', ''10''), (''building'', '''')]
     ''building'' = Some ''''
   \<and> get_place_type
       (map_of [(''addr:street'', ''Main St''), (''addr:housenumber'', ''10''), (''building'', '''')])
     = Some ''address''
   \<and> get_place_type
       (map_of [(''addr:street'', ''Main St''), (''addr:housenumber'', ''10''), (''building'', '''')])
     \<noteq> Some (''building_'' @ '''')"
  by (simp add: get_place_type_def Let_def truthy_simps py_str_Some place_values_def)

text \<open>
  C4, amended: a tag counts as present when it has a non-empty value. When \<open>place\<close> has
  no enumerated value, \<open>amenity\<close>, \<open>shop\<close> and \<open>tourism\<close> are missing or empty, and
  \<open>addr:street\<close> and \<open>addr:housenumber\<close> are both non-empty, the place type is
  \<open>building\<close> for the \<open>building\<close> value \<open>yes\<close>, \<open>building_\<close> followed by the value for
  any other non-empty value, and \<open>address\<close> when \<open>building\<close> is missing or empty.
\<close>

theorem get_place_type_address_rule:
  assumes "tags ''place'' \<notin> set (map Some place_values)"
    and "\<not> truthy (tags ''amenity'')"
    and "\<not> truthy (tags ''shop'')"
    and "\<not> truthy (tags ''tourism'')"
    and "truthy (tags ''addr:street'')"
    and "truthy (tags ''addr:housenumber'')"
  shows "get_place_type tags =
     (case tags ''building'' of
        None \<Rightarrow> Some ''address''
      | Some v \<Rightarrow> if v = [] then Some ''address''
                  else if v = ''yes'' then Some ''building''
                  else Some (''building_'' @ v))"
  using assms
  by (simp add: get_place_type_def Let_def truthy_simps py_str_Some split: option.splits)

theorem get_place_type_address_rule_witness:
  "get_place_type
     (map_of [(''building'', ''yes''), (''addr:street'', ''Main St''), (''addr:housenumber'', ''10'')])
     = Some ''building''
   \<and> get_place_type
     (map_of [(''building'', ''house''), (''addr:street'', ''Main St''), (''addr:housenumber'', ''10'')])
     = Some ''building_house''
   \<and> get_place_type
     (map_of [(''place'', ''island''), (''addr:street'', ''Main St''), (''addr:housenumber'', ''10'')])
     = Some ''address''"
  using get_place_type_address_rule [of
          "map_of [(''building'', ''yes''), (''addr:street'', ''Main St''),
                   (''addr:housenumber'', ''10'')]"]
        get_place_type_address_rule [of
          "map_of [(''building'', ''house''), (''addr:street'', ''Main St''),
                   (''addr:housenumber'', ''10'')]"]
        get_place_type_address_rule [of
          "map_of [(''place'', ''island''), (''addr:street'', ''Main St''),
                   (''addr:housenumber'', ''10'')]"]
  by (simp add: truthy_simps place_values_def)

text \<open>
  Tags that differ only in empty values: \<open>norm_tags\<close> forgets the empty values, and the
  place type does not see the difference.
\<close>

lemma norm_tags_upd: "norm_tags (m(k \<mapsto> [])) = norm_tags (m(k := None))"
  by (rule ext) (simp add: norm_tags_def truthy_simps)

lemma truthy_norm: "truthy (norm_tags t x) = truthy (t x)"
  by (simp add: norm_tags_def truthy_simps)

lemma norm_truthy: "truthy (t x) \<Longrightarrow> norm_tags t x = t x"
  by (simp add: norm_tags_def)

lemma norm_lookup: "v \<noteq> [] \<Longrightarrow> (norm_tags t x = Some v) = (t x = Some v)"
  by (auto simp: norm_tags_def truthy_simps)

lemma norm_place:
  "(norm_tags t ''place'' \<in> set (map Some place_values))
     = (t ''place'' \<in> set (map Some place_values))"
  by (auto simp: place_values_def norm_lookup)

lemma place_truthy: "t ''place'' \<in> set (map Some place_values) \<Longrightarrow> truthy (t ''place'')"
  by (auto simp: place_values_def truthy_simps)

lemma get_place_type_norm: "get_place_type (norm_tags t) = get_place_type t"
  unfolding get_place_type_def Let_def truthy_norm norm_place
  by (simp add: norm_truthy place_truthy)

section \<open>The category table\<close>

lemma table_swap: "POI_TAG_TO_CATEGORY = map (\<lambda>(c, kv). (kv, c)) POI_CATEGORIES"
  unfolding POI_TAG_TO_CATEGORY_def POI_CATEGORIES_def
  by simp

lemma find_category_None:
  "(find_category tags tbl = None) = (\<forall>((k, v), c) \<in> set tbl. tags k \<noteq> Some v)"
  by (induction tags tbl rule: find_category.induct) auto

lemma find_category_Some: "find_category tags tbl = Some c \<Longrightarrow> c \<in> snd ` set tbl"
  by (induction tags tbl rule: find_category.induct) (auto split: if_splits)

lemma categories_nonempty: "c \<in> snd ` set POI_TAG_TO_CATEGORY \<Longrightarrow> c \<noteq> []"
  unfolding table_swap POI_CATEGORIES_def by auto

lemma values_nonempty: "((k, v), c) \<in> set POI_TAG_TO_CATEGORY \<Longrightarrow> v \<noteq> []"
  unfolding table_swap POI_CATEGORIES_def by auto

lemma find_category_pharmacy:
  "tags ''amenity'' = Some ''pharmacy''
   \<Longrightarrow> find_category tags POI_TAG_TO_CATEGORY = Some ''PHARMACY''"
  unfolding table_swap POI_CATEGORIES_def by simp

lemma find_category_norm:
  "(\<And>k v c. ((k, v), c) \<in> set tbl \<Longrightarrow> v \<noteq> [])
   \<Longrightarrow> find_category (norm_tags t) tbl = find_category t tbl"
proof (induction tbl)
  case Nil
  show ?case by simp
next
  case (Cons e tbl)
  obtain k v c where e: "e = ((k, v), c)" by (metis surj_pair)
  have "v \<noteq> []" using Cons.prems [of k v c] e by simp
  then have "(norm_tags t k = Some v) = (t k = Some v)" by (rule norm_lookup)
  moreover have "find_category (norm_tags t) tbl = find_category t tbl"
    using Cons.IH Cons.prems by (meson list.set_intros(2))
  ultimately show ?case by (simp add: e)
qed

text \<open>
  C9: a tag present with the empty value is treated like a missing tag, by the place type
  and by the category lookup: both give the same result on \<open>m\<close> with \<open>k\<close> mapped to the
  empty string as on \<open>m\<close> with \<open>k\<close> removed.
\<close>

theorem empty_value_as_absent:
  "get_place_type (m(k \<mapsto> [])) = get_place_type (m(k := None))
   \<and> find_category (m(k \<mapsto> [])) POI_TAG_TO_CATEGORY
       = find_category (m(k := None)) POI_TAG_TO_CATEGORY"
proof
  show "get_place_type (m(k \<mapsto> [])) = get_place_type (m(k := None))"
    by (metis get_place_type_norm norm_tags_upd)
  have "find_category (norm_tags s) POI_TAG_TO_CATEGORY = find_category s POI_TAG_TO_CATEGORY"
    for s
    by (rule find_category_norm) (rule values_nonempty)
  then show "find_category (m(k \<mapsto> [])) POI_TAG_TO_CATEGORY
       = find_category (m(k := None)) POI_TAG_TO_CATEGORY"
    by (metis norm_tags_upd)
qed

theorem empty_value_as_absent_witness:
  "get_place_type ((map_of [(''name'', ''Park''), (''leisure'', ''park'')])(''amenity'' \<mapsto> []))
     = Some ''park''
   \<and> find_category ((map_of [(''shop'', ''mall'')])(''amenity'' \<mapsto> [])) POI_TAG_TO_CATEGORY
     = Some ''SHOPPING_MALL''"
proof -
  have "get_place_type ((map_of [(''name'', ''Park''), (''leisure'', ''park'')])(''amenity'' := None))
          = Some ''park''"
    by (simp add: get_place_type_def Let_def truthy_simps place_values_def)
  moreover have
    "find_category ((map_of [(''shop'', ''mall'')])(''amenity'' := None)) POI_TAG_TO_CATEGORY
       = Some ''SHOPPING_MALL''"
    unfolding table_swap POI_CATEGORIES_def by simp
  ultimately show ?thesis
    using empty_value_as_absent [of "map_of [(''name'', ''Park''), (''leisure'', ''park'')]" "''amenity''"]
          empty_value_as_absent [of "map_of [(''shop'', ''mall'')]" "''amenity''"]
    by simp
qed

section \<open>POI records\<close>

lemma extract_poi_category:
  assumes "obj_tags obj = Inr tags"
    and "find_category tags POI_TAG_TO_CATEGORY = Some c"
  shows "\<exists>q. extract_poi self obj lat lon = Inr (Some q) \<and> poi_category q = c"
proof -
  have "c \<noteq> []"
    using assms(2) find_category_Some categories_nonempty by blast
  then show ?thesis
    using assms by (simp add: extract_poi_def Let_def truthy_simps py_str_Some)
qed

lemma extract_poi_no_category:
  assumes "obj_tags obj = Inr tags"
    and "find_category tags POI_TAG_TO_CATEGORY = None"
  shows "extract_poi self obj lat lon = Inr None"
  using assms by (simp add: extract_poi_def Let_def truthy_simps)

text \<open>
  C6: the category depends on the tags alone. Whenever \<open>amenity\<close> has the value
  \<open>pharmacy\<close>, whatever the other tags, the entity, the handler and the coordinate are,
  the POI is emitted with category \<open>PHARMACY\<close>; and when no pair of the category table
  matches the tags, no POI is emitted.
\<close>

theorem poi_category_from_tags:
  assumes "obj_tags obj = Inr tags"
  shows "(tags ''amenity'' = Some ''pharmacy'' \<longrightarrow>
            find_category tags POI_TAG_TO_CATEGORY = Some ''PHARMACY''
            \<and> (\<exists>q. extract_poi self obj lat lon = Inr (Some q) \<and> poi_category q = ''PHARMACY''))
       \<and> ((\<forall>(c, (k, v)) \<in> set POI_CATEGORIES. tags k \<noteq> Some v) \<longrightarrow>
            extract_poi self obj lat lon = Inr None)"
proof (intro conjI impI)
  assume "tags ''amenity'' = Some ''pharmacy''"
  then show ph: "find_category tags POI_TAG_TO_CATEGORY = Some ''PHARMACY''"
    by (rule find_category_pharmacy)
  show "\<exists>q. extract_poi self obj lat lon = Inr (Some q) \<and> poi_category q = ''PHARMACY''"
    using assms ph by (rule extract_poi_category)
next
  assume "\<forall>(c, (k, v)) \<in> set POI_CATEGORIES. tags k \<noteq> Some v"
  then have "find_category tags POI_TAG_TO_CATEGORY = None"
    unfolding find_category_None table_swap by auto
  with assms show "extract_poi self obj lat lon = Inr None"
    by (rule extract_poi_no_category)
qed

theorem poi_category_from_tags_witness:
  "(\<exists>q. extract_poi (init ''Virginia'')
          (OsmNode \<lparr>node_id = 1, node_location = Some (0, 0),
                    node_tags = Inr (map_of [(''tourism'', ''hotel''), (''amenity'', ''pharmacy''),
                                             (''shop'', ''mall'')])\<rparr>) 0 0 = Inr (Some q)
        \<and> poi_category q = ''PHARMACY'')
   \<and> extract_poi (init ''Virginia'')
          (OsmWay \<lparr>way_id = 2, way_nodes = [Some (1, 1)],
                   way_tags = Inr (map_of [(''amenity'', ''bench''), (''name'', ''Seat'')])\<rparr>) 1 1
       = Inr None"
  using poi_category_from_tags [of
          "OsmNode \<lparr>node_id = 1, node_location = Some (0, 0),
                    node_tags = Inr (map_of [(''tourism'', ''hotel''), (''amenity'', ''pharmacy''),
                                             (''shop'', ''mall'')])\<rparr>"
          "map_of [(''tourism'', ''hotel''), (''amenity'', ''pharmacy''), (''shop'', ''mall'')]"
          "init ''Virginia''" 0 0]
        poi_category_from_tags [of
          "OsmWay \<lparr>way_id = 2, way_nodes = [Some (1, 1)],
                   way_tags = Inr (map_of [(''amenity'', ''bench''), (''name'', ''Seat'')])\<rparr>"
          "map_of [(''amenity'', ''bench''), (''name'', ''Seat'')]"
          "init ''Virginia''" 1 1]
  by (simp add: POI_CATEGORIES_def)

section \<open>Place records\<close>

lemma extract_place_no_name_street:
  "obj_tags obj = Inr tags \<Longrightarrow> \<not> truthy (tags ''name'') \<Longrightarrow> \<not> truthy (tags ''addr:street'')
   \<Longrightarrow> extract_place self obj lat lon = Inr None"
  by (simp add: extract_place_def)

lemma add_poi_places: "self_places (add_poi self q) = self_places self"
  by (simp add: add_poi_def)

lemma node_places_unchanged:
  assumes "\<And>lat lon. extract_place self (OsmNode n) lat lon = Inr None"
  shows "self_places (case node self n of Inl (e, s) \<Rightarrow> s | Inr s \<Rightarrow> s) = self_places self"
  using assms
  by (simp add: node_def Let_def add_poi_places split: option.splits sum.splits prod.splits)

lemma way_places_unchanged:
  assumes "\<And>lat lon. extract_place self (OsmWay w) lat lon = Inr None"
  shows "self_places (way ar self w) = self_places self"
  using assms
  by (simp add: way_def way_try_def Let_def add_poi_places
        split: option.splits sum.splits prod.splits)

text \<open>
  C5: an entity whose tags lack both \<open>name\<close> and \<open>addr:street\<close> gives no place, whatever
  its other tags and its coordinate are: \<open>_extract_place\<close> returns \<open>None\<close>, and neither
  \<open>node\<close> nor \<open>way\<close> adds a place to the handler.
\<close>

theorem no_name_no_street_no_place:
  assumes "obj_tags obj = Inr tags"
    and "tags ''name'' = None"
    and "tags ''addr:street'' = None"
  shows "extract_place self obj lat lon = Inr None
     \<and> (\<forall>n. obj = OsmNode n \<longrightarrow>
           self_places (case node self n of Inl (e, s) \<Rightarrow> s | Inr s \<Rightarrow> s) = self_places self)
     \<and> (\<forall>w. obj = OsmWay w \<longrightarrow> self_places (way ar self w) = self_places self)"
proof -
  have none: "extract_place self obj lat' lon' = Inr None" for lat' lon'
    using assms by (simp add: extract_place_no_name_street truthy_simps)
  show ?thesis
    using none node_places_unchanged way_places_unchanged by blast
qed

theorem no_name_no_street_no_place_witness:
  "extract_place (init ''Virginia'')
     (OsmNode \<lparr>node_id = 1, node_location = Some (38, -77),
               node_tags = Inr (map_of [(''amenity'', ''cafe''), (''addr:housenumber'', ''10'')])\<rparr>)
     38 (-77) = Inr None
   \<and> self_places (case node (init ''Virginia'')
          \<lparr>node_id = 1, node_location = Some (38, -77),
           node_tags = Inr (map_of [(''amenity'', ''cafe''), (''addr:housenumber'', ''10'')])\<rparr>
        of Inl (e, s) \<Rightarrow> s | Inr s \<Rightarrow> s) = []"
  using no_name_no_street_no_place [of
          "OsmNode \<lparr>node_id = 1, node_location = Some (38, -77),
                    node_tags = Inr (map_of [(''amenity'', ''cafe''), (''addr:housenumber'', ''10'')])\<rparr>"
          "map_of [(''amenity'', ''cafe''), (''addr:housenumber'', ''10'')]"
          "init ''Virginia''" 38 "-77"]
  by (simp add: init_def)

text \<open>
  C10: in an emitted place, the state field is the region label of the handler when
  \<open>addr:state\<close> is missing, and the value of \<open>addr:state\<close>, also an empty one, when the
  tag is there; the region label is the one \<open>__init__\<close> was given.
\<close>

theorem place_state_field:
  assumes "obj_tags obj = Inr tags"
    and "extract_place self obj lat lon = Inr (Some p)"
  shows "p_state p = (case tags ''addr:state'' of None \<Rightarrow> self_region_name self | Some v \<Rightarrow> v)
     \<and> self_region_name (init region_name) = region_name"
  using assms
  by (auto simp: extract_place_def Let_def get_default_def init_def split: if_splits)

theorem place_state_field_witness:
  "map_sum id (map_option p_state)
     (extract_place (init ''Virginia'')
        (OsmNode \<lparr>node_id = 1, node_location = Some (38, -77),
                  node_tags = Inr (map_of [(''name'', ''Cafe''), (''amenity'', ''cafe'')])\<rparr>)
        38 (-77)) = Inr (Some ''Virginia'')
   \<and> map_sum id (map_option p_state)
     (extract_place (init ''Virginia'')
        (OsmNode \<lparr>node_id = 1, node_location = Some (38, -77),
                  node_tags = Inr (map_of [(''name'', ''Cafe''), (''amenity'', ''cafe''),
                                           (''addr:state'', '''')])\<rparr>)
        38 (-77)) = Inr (Some '''')"
proof -
  let ?t1 = "map_of [(''name'', ''Cafe''), (''amenity'', ''cafe'')]"
  let ?t2 = "map_of [(''name'', ''Cafe''), (''amenity'', ''cafe''), (''addr:state'', '''')]"
  let ?n1 = "OsmNode \<lparr>node_id = 1, node_location = Some (38, -77), node_tags = Inr ?t1\<rparr>"
  let ?n2 = "OsmNode \<lparr>node_id = 1, node_location = Some (38, -77), node_tags = Inr ?t2\<rparr>"
  obtain p1 where p1: "extract_place (init ''Virginia'') ?n1 38 (-77) = Inr (Some p1)"
    by (simp add: extract_place_def Let_def truthy_simps get_place_type_def place_values_def)
  obtain p2 where p2: "extract_place (init ''Virginia'') ?n2 38 (-77) = Inr (Some p2)"
    by (simp add: extract_place_def Let_def truthy_simps get_place_type_def place_values_def)
  have "p_state p1 = ''Virginia''"
    using place_state_field [of ?n1 ?t1 "init ''Virginia''" 38 "-77" p1] p1
    by (simp add: init_def)
  moreover have "p_state p2 = ''''"
    using place_state_field [of ?n2 ?t2 "init ''Virginia''" 38 "-77" p2] p2
    by simp
  ultimately show ?thesis
    unfolding p1 p2 by simp
qed

text \<open>
  C2 fails on the code: with \<open>name\<close> and \<open>addr:housenumber\<close> missing and
  \<open>addr:street\<close> present, the missing housenumber is printed into the name as the text
  None, so the name of the place is not the street alone.
\<close>

theorem extract_place_name_without_housenumber:
  "\<exists>p. extract_place self
          (OsmNode \<lparr>node_id = i, node_location = loc,
                    node_tags = Inr (map_of [(''amenity'', ''cafe''), (''addr:street'', ''Main St'')])\<rparr>)
          lat lon = Inr (Some p)
       \<and> p_name p = ''None Main St''
       \<and> p_name p \<noteq> ''Main St''"
  by (simp add: extract_place_def Let_def truthy_simps py_str_def get_place_type_def
        place_values_def strip_def isspace_def)

text \<open>
  The name can also be empty: a street of one space and an empty housenumber leave
  nothing after \<open>strip()\<close>.
\<close>

lemma extract_place_name_empty:
  "\<exists>p. extract_place self
          (OsmNode \<lparr>node_id = i, node_location = loc,
                    node_tags = Inr (map_of [(''amenity'', ''cafe''), (''addr:street'', '' ''),
                                             (''addr:housenumber'', '''')])\<rparr>)
          lat lon = Inr (Some p)
       \<and> p_name p = []"
  by (simp add: extract_place_def Let_def truthy_simps py_str_def get_place_type_def
        place_values_def strip_def isspace_def)

section \<open>Exceptions in the callbacks\<close>

text \<open>
  C3 fails on the code: \<open>way\<close> catches an exception raised while the entity is read and
  leaves the handler as it is, but \<open>node\<close> has no handler, and the same exception
  leaves the callback.
\<close>

theorem node_fault_propagates:
  "node self \<lparr>node_id = i, node_location = Some (lat, lon), node_tags = Inl EntityFault\<rparr>
     = Inl (EntityFault, self)
   \<and> way ar self \<lparr>way_id = i, way_nodes = [Some (lat, lon)], way_tags = Inl EntityFault\<rparr>
       = self"
  by (simp add: node_def way_def way_try_def extract_place_def)

section \<open>The coordinate of a way\<close>

lemma collect_valid:
  "collect ns lats lons =
     (lats @ map fst (valid_vertices ns), lons @ map snd (valid_vertices ns))"
  by (induction ns lats lons rule: collect.induct) (simp_all add: valid_vertices_def)

lemma extract_place_coord:
  "extract_place self obj lat lon = Inr (Some p) \<Longrightarrow> p_lat p = lat \<and> p_lon p = lon"
  by (auto simp: extract_place_def Let_def split: sum.splits if_splits)

lemma extract_poi_coord:
  "extract_poi self obj lat lon = Inr (Some q) \<Longrightarrow> poi_lat q = lat \<and> poi_lon q = lon"
  by (auto simp: extract_poi_def Let_def split: sum.splits if_splits)

lemma extract_place_readable:
  "obj_tags obj = Inr tags \<Longrightarrow> \<exists>place. extract_place self obj lat lon = Inr place"
  by (simp add: extract_place_def)

lemma extract_poi_readable:
  "obj_tags obj = Inr tags \<Longrightarrow> \<exists>poi. extract_poi self obj lat lon = Inr poi"
  by (simp add: extract_poi_def)

lemma extract_poi_any_handler:
  "extract_poi self obj lat lon = extract_poi self' obj lat lon"
  by (simp add: extract_poi_def)

lemma way_no_valid_vertex: "valid_vertices (way_nodes w) = [] \<Longrightarrow> way ar self w = self"
  by (simp add: way_def way_try_def collect_valid)

lemma way_fault: "way_tags w = Inl e \<Longrightarrow> way ar self w = self"
  by (simp add: way_def way_try_def extract_place_def Let_def split: prod.splits)

lemma way_valid_vertices:
  assumes "valid_vertices (way_nodes w) \<noteq> []"
    and "way_tags w = Inr tags"
  shows "\<exists>place poi.
      extract_place self (OsmWay w)
          (float_mean ar (map fst (valid_vertices (way_nodes w))))
          (float_mean ar (map snd (valid_vertices (way_nodes w)))) = Inr place
    \<and> extract_poi self (OsmWay w)
          (float_mean ar (map fst (valid_vertices (way_nodes w))))
          (float_mean ar (map snd (valid_vertices (way_nodes w)))) = Inr poi
    \<and> self_places (way ar self w)
        = self_places self @ (case place of None \<Rightarrow> [] | Some p \<Rightarrow> [p\<lparr>p_osm_type := ''way''\<rparr>])
    \<and> self_pois (way ar self w)
        = self_pois self @ (case poi of None \<Rightarrow> [] | Some q \<Rightarrow> [q\<lparr>poi_osm_type := ''way''\<rparr>])
    \<and> (\<forall>p. place = Some p \<longrightarrow>
          p_lat p = float_mean ar (map fst (valid_vertices (way_nodes w)))
          \<and> p_lon p = float_mean ar (map snd (valid_vertices (way_nodes w))))
    \<and> (\<forall>q. poi = Some q \<longrightarrow>
          poi_lat q = float_mean ar (map fst (valid_vertices (way_nodes w)))
          \<and> poi_lon q = float_mean ar (map snd (valid_vertices (way_nodes w))))"
proof -
  let ?vs = "valid_vertices (way_nodes w)"
  let ?lat = "float_mean ar (map fst ?vs)" and ?lon = "float_mean ar (map snd ?vs)"
  have body: "way_try ar self w =
      (case extract_place self (OsmWay w) ?lat ?lon of
         Inl e \<Rightarrow> Inl (e, self)
       | Inr place \<Rightarrow>
           let self = (case place of None \<Rightarrow> self
                       | Some p \<Rightarrow> add_place self (p\<lparr>p_osm_type := ''way''\<rparr>))
           in (case extract_poi self (OsmWay w) ?lat ?lon of
                 Inl e \<Rightarrow> Inl (e, self)
               | Inr poi \<Rightarrow>
                   Inr (case poi of None \<Rightarrow> self
                        | Some q \<Rightarrow> add_poi self (q\<lparr>poi_osm_type := ''way''\<rparr>))))"
    using assms(1)
    by (simp add: way_try_def collect_valid Let_def float_mean_def cong: sum.case_cong)
  have tags: "obj_tags (OsmWay w) = Inr tags"
    using assms(2) by simp
  obtain place where place: "extract_place self (OsmWay w) ?lat ?lon = Inr place"
    using extract_place_readable [OF tags] by blast
  obtain poi where poi: "extract_poi self (OsmWay w) ?lat ?lon = Inr poi"
    using extract_poi_readable [OF tags] by blast
  define self1 where
    "self1 = (case place of None \<Rightarrow> self
              | Some p \<Rightarrow> add_place self (p\<lparr>p_osm_type := ''way''\<rparr>))"
  have poi1: "extract_poi self1 (OsmWay w) ?lat ?lon = Inr poi"
    using poi extract_poi_any_handler by metis
  have result: "way ar self w =
      (case poi of None \<Rightarrow> self1 | Some q \<Rightarrow> add_poi self1 (q\<lparr>poi_osm_type := ''way''\<rparr>))"
    unfolding way_def body place
    using poi1 by (simp add: self1_def [symmetric])
  have places: "self_places (way ar self w)
      = self_places self @ (case place of None \<Rightarrow> [] | Some p \<Rightarrow> [p\<lparr>p_osm_type := ''way''\<rparr>])"
    unfolding result
    by (simp add: self1_def add_poi_def add_place_def split: option.splits)
  have pois: "self_pois (way ar self w)
      = self_pois self @ (case poi of None \<Rightarrow> [] | Some q \<Rightarrow> [q\<lparr>poi_osm_type := ''way''\<rparr>])"
    unfolding result
    by (simp add: self1_def add_poi_def add_place_def split: option.splits)
  have "\<forall>p. place = Some p \<longrightarrow> p_lat p = ?lat \<and> p_lon p = ?lon"
    using place extract_place_coord by blast
  moreover have "\<forall>q. poi = Some q \<longrightarrow> poi_lat q = ?lat \<and> poi_lon q = ?lon"
    using poi extract_poi_coord by blast
  ultimately show ?thesis
    using place poi places pois by blast
qed

lemma round_double_0: "round_double 0 = 0"
  by (simp add: round_double_def)

lemma float_mean_0_0_1:
  "float_mean ieee_double [0, 0, 1] = 6004799503160661 / 18014398509481984"
  by (simp add: float_mean_def ieee_double_def round_double_def floor_log2_def pow2_def
        round_half_even_def bits.simps Let_def)

text \<open>
  The doubles written 0.1, 0.2 and 0.3 in the source language, and what
  \<open>sum(xs) / len(xs)\<close> gives on them: the double written 0.20000000000000004.
\<close>

lemma round_double_tenth: "round_double (1 / 10) = 3602879701896397 / 36028797018963968"
  by (simp add: round_double_def floor_log2_def pow2_def round_half_even_def bits.simps Let_def)

lemma float_mean_tenths:
  "float_mean ieee_double
     [3602879701896397 / 36028797018963968, 3602879701896397 / 18014398509481984,
      5404319552844595 / 18014398509481984]
     = 7205759403792795 / 36028797018963968"
  by (simp add: float_mean_def ieee_double_def round_double_def floor_log2_def pow2_def
        round_half_even_def bits.simps Let_def)

lemma float_mean_0_0_0: "float_mean ieee_double [0, 0, 0] = 0"
  by (simp add: float_mean_def ieee_double_def round_double_0)

lemma float_mean_1_3: "float_mean ieee_double [1, 3] = 2"
  by (simp add: float_mean_def ieee_double_def round_double_def floor_log2_def pow2_def
        round_half_even_def bits.simps Let_def)

lemma float_mean_2_6: "float_mean ieee_double [2, 6] = 4"
  by (simp add: float_mean_def ieee_double_def round_double_def floor_log2_def pow2_def
        round_half_even_def bits.simps Let_def)

text \<open>
  C7 as stated fails: the coordinate is computed in doubles and is in general not the
  arithmetic mean. For a way with the valid latitudes 0, 0 and 1 the mean is 1/3; the
  place carries the double nearest to it, 6004799503160661 / 2^54.
\<close>

theorem way_coordinate_exact_mean_counterexample:
  "map p_lat
     (self_places (way ieee_double (init ''Virginia'')
        \<lparr>way_id = 7, way_nodes = [Some (0, 0), Some (0, 0), Some (1, 0)],
         way_tags = Inr (map_of [(''name'', ''Corner''), (''amenity'', ''pharmacy'')])\<rparr>))
     = [6004799503160661 / 18014398509481984]
   \<and> mean (map fst (valid_vertices [Some (0, 0), Some (0, 0), Some (1, 0)])) = 1 / 3
   \<and> (6004799503160661 / 18014398509481984 :: real) \<noteq> 1 / 3"
proof -
  let ?t = "map_of [(''name'', ''Corner''), (''amenity'', ''pharmacy'')]"
  let ?w = "\<lparr>way_id = 7, way_nodes = [Some (0, 0), Some (0, 0), Some (1, 0)],
             way_tags = Inr ?t\<rparr> :: osm_way"
  let ?h = "init ''Virginia''"
  have vs: "valid_vertices (way_nodes ?w) = [(0, 0), (0, 0), (1, 0)]"
    by (simp add: valid_vertices_def)
  have lat: "float_mean ieee_double (map fst (valid_vertices (way_nodes ?w)))
      = 6004799503160661 / 18014398509481984"
    unfolding vs using float_mean_0_0_1 by simp
  obtain place where
    ex: "extract_place ?h (OsmWay ?w)
          (float_mean ieee_double (map fst (valid_vertices (way_nodes ?w))))
          (float_mean ieee_double (map snd (valid_vertices (way_nodes ?w)))) = Inr place"
    and sp: "self_places (way ieee_double ?h ?w)
        = self_places ?h @ (case place of None \<Rightarrow> [] | Some p \<Rightarrow> [p\<lparr>p_osm_type := ''way''\<rparr>])"
    and co: "\<forall>p. place = Some p \<longrightarrow>
          p_lat p = float_mean ieee_double (map fst (valid_vertices (way_nodes ?w)))"
    using way_valid_vertices [of ?w ?t ?h ieee_double] vs by auto
  have "place \<noteq> None"
    using ex
    by (auto simp: extract_place_def Let_def truthy_simps get_place_type_def place_values_def)
  then obtain p where p: "place = Some p" by blast
  have "p_lat p = 6004799503160661 / 18014398509481984"
    using co p lat by simp
  then have "map p_lat (self_places (way ieee_double ?h ?w))
      = [6004799503160661 / 18014398509481984]"
    unfolding sp p by (simp add: init_def)
  moreover have "mean (map fst (valid_vertices [Some (0, 0), Some (0, 0), Some (1, 0)])) = 1 / 3"
    by (simp add: valid_vertices_def mean_def)
  ultimately show ?thesis by simp
qed

text \<open>
  C7, amended: the coordinate of a way is \<open>sum(lats) / len(lats)\<close> and
  \<open>sum(lons) / len(lons)\<close> as the doubles compute them (the arithmetic mean up to
  rounding, not in general the mean itself), over exactly the vertices with a valid
  location, in order. When the tags of the way can be read, the place and the POI that
  the extractor gives at this coordinate are the records \<open>way\<close> adds, and they carry
  it. A way without a valid vertex leaves the handler unchanged, so it gives no place
  and no POI, and nothing is divided by zero.
\<close>

theorem way_coordinate_float_mean:
  "(valid_vertices (way_nodes w) = [] \<longrightarrow> way ar self w = self)
   \<and> (valid_vertices (way_nodes w) \<noteq> [] \<longrightarrow>
       (\<forall>tags. way_tags w = Inr tags \<longrightarrow>
          (\<exists>place poi.
              extract_place self (OsmWay w)
                  (float_mean ar (map fst (valid_vertices (way_nodes w))))
                  (float_mean ar (map snd (valid_vertices (way_nodes w)))) = Inr place
            \<and> extract_poi self (OsmWay w)
                  (float_mean ar (map fst (valid_vertices (way_nodes w))))
                  (float_mean ar (map snd (valid_vertices (way_nodes w)))) = Inr poi
            \<and> self_places (way ar self w)
                = self_places self
                  @ (case place of None \<Rightarrow> [] | Some p \<Rightarrow> [p\<lparr>p_osm_type := ''way''\<rparr>])
            \<and> self_pois (way ar self w)
                = self_pois self
                  @ (case poi of None \<Rightarrow> [] | Some q \<Rightarrow> [q\<lparr>poi_osm_type := ''way''\<rparr>])
            \<and> (\<forall>p. place = Some p \<longrightarrow>
                  p_lat p = float_mean ar (map fst (valid_vertices (way_nodes w)))
                  \<and> p_lon p = float_mean ar (map snd (valid_vertices (way_nodes w))))
            \<and> (\<forall>q. poi = Some q \<longrightarrow>
                  poi_lat q = float_mean ar (map fst (valid_vertices (way_nodes w)))
                  \<and> poi_lon q = float_mean ar (map snd (valid_vertices (way_nodes w)))))))"
  using way_no_valid_vertex way_valid_vertices by blast

theorem way_coordinate_float_mean_witness:
  "valid_vertices [Some (1, 2), None, Some (3, 6)] = [(1, 2), (3, 6)]
   \<and> map (\<lambda>p. (p_lat p, p_lon p))
       (self_places (way ieee_double (init ''Virginia'')
          \<lparr>way_id = 7, way_nodes = [Some (1, 2), None, Some (3, 6)],
           way_tags = Inr (map_of [(''name'', ''Corner''), (''amenity'', ''pharmacy'')])\<rparr>))
     = [(2, 4)]
   \<and> map (\<lambda>q. (poi_lat q, poi_lon q))
       (self_pois (way ieee_double (init ''Virginia'')
          \<lparr>way_id = 7, way_nodes = [Some (1, 2), None, Some (3, 6)],
           way_tags = Inr (map_of [(''name'', ''Corner''), (''amenity'', ''pharmacy'')])\<rparr>))
     = [(2, 4)]
   \<and> way ieee_double (init ''Virginia'')
          \<lparr>way_id = 8, way_nodes = [None, None],
           way_tags = Inr (map_of [(''name'', ''Corner''), (''amenity'', ''pharmacy'')])\<rparr>
     = init ''Virginia''"
proof -
  let ?t = "map_of [(''name'', ''Corner''), (''amenity'', ''pharmacy'')]"
  let ?w = "\<lparr>way_id = 7, way_nodes = [Some (1, 2), None, Some (3, 6)], way_tags = Inr ?t\<rparr>
            :: osm_way"
  let ?e = "\<lparr>way_id = 8, way_nodes = [None, None], way_tags = Inr ?t\<rparr> :: osm_way"
  let ?h = "init ''Virginia''"
  have vs: "valid_vertices [Some (1, 2), None, Some (3, 6)] = [(1 :: real, 2 :: real), (3, 6)]"
    by (simp add: valid_vertices_def)
  have vw: "valid_vertices (way_nodes ?w) = [(1, 2), (3, 6)]"
    by (simp add: valid_vertices_def)
  have lat: "float_mean ieee_double (map fst (valid_vertices (way_nodes ?w))) = 2"
    unfolding vw using float_mean_1_3 by simp
  have lon: "float_mean ieee_double (map snd (valid_vertices (way_nodes ?w))) = 4"
    unfolding vw using float_mean_2_6 by simp
  obtain place poi where
    ex: "extract_place ?h (OsmWay ?w) 2 4 = Inr place"
    and ey: "extract_poi ?h (OsmWay ?w) 2 4 = Inr poi"
    and sp: "self_places (way ieee_double ?h ?w)
        = self_places ?h @ (case place of None \<Rightarrow> [] | Some p \<Rightarrow> [p\<lparr>p_osm_type := ''way''\<rparr>])"
    and sq: "self_pois (way ieee_double ?h ?w)
        = self_pois ?h @ (case poi of None \<Rightarrow> [] | Some q \<Rightarrow> [q\<lparr>poi_osm_type := ''way''\<rparr>])"
    and cp: "\<forall>p. place = Some p \<longrightarrow> p_lat p = 2 \<and> p_lon p = 4"
    and cq: "\<forall>q. poi = Some q \<longrightarrow> poi_lat q = 2 \<and> poi_lon q = 4"
    using way_coordinate_float_mean [of ?w ieee_double ?h] vw
    unfolding lat lon by auto
  have "place \<noteq> None"
    using ex
    by (auto simp: extract_place_def Let_def truthy_simps get_place_type_def place_values_def)
  then obtain p where p: "place = Some p" by blast
  have cat: "find_category ?t POI_TAG_TO_CATEGORY = Some ''PHARMACY''"
    by (rule find_category_pharmacy) simp
  have "\<exists>q. extract_poi ?h (OsmWay ?w) 2 4 = Inr (Some q) \<and> poi_category q = ''PHARMACY''"
    by (rule extract_poi_category [OF _ cat]) simp
  then obtain q where q: "poi = Some q"
    using ey by auto
  have a: "map (\<lambda>p. (p_lat p, p_lon p)) (self_places (way ieee_double ?h ?w)) = [(2, 4)]"
    unfolding sp p using cp p by (simp add: init_def)
  have b: "map (\<lambda>q. (poi_lat q, poi_lon q)) (self_pois (way ieee_double ?h ?w)) = [(2, 4)]"
    unfolding sq q using cq q by (simp add: init_def)
  have c: "way ieee_double ?h ?e = ?h"
    using way_coordinate_float_mean [of ?e ieee_double ?h] by (simp add: valid_vertices_def)
  show ?thesis
    unfolding a b c vs by simp
qed

section \<open>The metadata of the store\<close>

lemma of_char_digit: "d < 10 \<Longrightarrow> (of_char (char_of (48 + d :: nat)) :: nat) = 48 + d"
  by simp

lemma str_nat_nonempty: "str_nat n \<noteq> []"
  by (subst str_nat.simps) simp

lemma str_nat_digits: "list_all is_digit (str_nat n)"
proof (induction n rule: str_nat.induct)
  case (1 n)
  show ?case
  proof (cases "n < 10")
    case True
    then show ?thesis
      by (subst str_nat.simps) (simp add: is_digit_def)
  next
    case False
    have "n mod 10 < 10" by simp
    then have "is_digit (char_of (48 + n mod 10))"
      unfolding is_digit_def using of_char_digit [of "n mod 10"] by simp
    with False 1 show ?thesis
      by (subst str_nat.simps) simp
  qed
qed

lemma str_nat_value: "foldl (\<lambda>acc c. 10 * acc + (of_char c - 48)) 0 (str_nat n) = n"
proof (induction n rule: str_nat.induct)
  case (1 n)
  show ?case
  proof (cases "n < 10")
    case True
    then show ?thesis
      by (subst str_nat.simps) simp
  next
    case False
    have "n mod 10 < 10" by simp
    then have "(of_char (char_of (48 + n mod 10)) :: nat) - 48 = n mod 10"
      using of_char_digit [of "n mod 10"] by simp
    with False 1 show ?thesis
      by (subst str_nat.simps) simp
  qed
qed

lemma decimal_value_str_nat: "decimal_value (str_nat n) = Some n"
  by (simp add: decimal_value_def str_nat_nonempty str_nat_digits str_nat_value)

lemma str_nat_0: "str_nat 0 = ''0''"
  by code_simp

lemma length_executemany: "length (executemany tbl rows) = length tbl + length rows"
  unfolding executemany_def
  by (induction rows arbitrary: tbl) (simp_all add: insert_row_def)

lemma create_database_value:
  "create_database places pois created region_name =
     Inr \<lparr>db_places = executemany [] places,
          db_places_fts =
            map (\<lambda>(i, p). (i, p_name p, p_display_name p, p_street p, p_city p, p_postcode p))
              (executemany [] places),
          db_pois = executemany [] pois,
          db_pois_rtree =
            map (\<lambda>(i, q). (i, poi_lat q, poi_lat q, poi_lon q, poi_lon q)) (executemany [] pois),
          db_metadata =
            [(''created'', created), (''place_count'', str_nat (length places)),
             (''poi_count'', str_nat (length pois)), (''region'', region_name),
             (''schema_version'', ''2'')]\<rparr>"
  by (simp add: create_database_def insert_metadata_def Let_def)

text \<open>
  C8: for every batch, the empty one too, \<open>create_database\<close> returns a store whose
  metadata has \<open>place_count\<close> and \<open>poi_count\<close>, the decimal texts of the numbers of
  places and POIs of the batch (which are also the numbers of rows stored), and
  \<open>schema_version\<close> 2.
\<close>

theorem create_database_metadata:
  "\<exists>db. create_database places pois created region_name = Inr db
      \<and> metadata_value db ''place_count'' = Some (str_nat (length places))
      \<and> decimal_value (str_nat (length places)) = Some (length places)
      \<and> metadata_value db ''poi_count'' = Some (str_nat (length pois))
      \<and> decimal_value (str_nat (length pois)) = Some (length pois)
      \<and> metadata_value db ''schema_version'' = Some ''2''
      \<and> length (db_places db) = length places
      \<and> length (db_pois db) = length pois"
  by (simp add: create_database_value metadata_value_def decimal_value_str_nat length_executemany)

theorem create_database_metadata_witness:
  "\<exists>db. create_database [] [] ''2026-01-01T00:00:00'' ''Virginia'' = Inr db
      \<and> metadata_value db ''place_count'' = Some ''0''
      \<and> metadata_value db ''poi_count'' = Some ''0''
      \<and> metadata_value db ''schema_version'' = Some ''2''
      \<and> db_places db = [] \<and> db_pois db = []"
  using create_database_metadata [of "[]" "[]" "''2026-01-01T00:00:00''" "''Virginia''"]
  by (auto simp add: str_nat_0)

end
